theory Spec2Isabelle
  imports Main "HOL-Library.Sublist"
begin

section \<open>The Route Guard: \<^verbatim>\<open>middleware\<close>\<close>

text \<open>
  The middleware reads three things of a \<^verbatim>\<open>NextRequest\<close>: the parsed URL
  (\<^verbatim>\<open>request.nextUrl\<close>; \<^verbatim>\<open>request.url\<close> is the same URL as text), and the
  request's cookies. A URL is kept as its origin, its path and its list of query
  parameters (the state of \<^verbatim>\<open>url.searchParams\<close>). \<^verbatim>\<open>request.cookies.get(n)\<close>
  returns the cookie named \<^verbatim>\<open>n\<close> or \<^verbatim>\<open>undefined\<close>: the cookies are a map from
  names to values, and a cookie object is truthy whatever its value. The query
  parameters are kept as \<^verbatim>\<open>searchParams\<close> holds them, before they are
  percent-encoded into the text of the URL. The function is declared \<^verbatim>\<open>async\<close> and
  awaits nothing: its promise is fulfilled with the response it returns.
\<close>

record url =
  origin :: string
  pathname :: string
  searchParams :: "(string \<times> string) list"

record request =
  nextUrl :: url
  cookies :: "string \<rightharpoonup> string"

text \<open>\<^verbatim>\<open>NextResponse.next()\<close> and \<^verbatim>\<open>NextResponse.redirect(url)\<close>.\<close>

datatype response = NextResponse_next | NextResponse_redirect url

text \<open>\<^verbatim>\<open>s.startsWith(pre)\<close>.\<close>

definition startsWith :: "string \<Rightarrow> string \<Rightarrow> bool" where
  "startsWith s pre = prefix pre s"

text \<open>
  \<^verbatim>\<open>new URL(path, base)\<close> for an absolute path: the origin of the base, the given
  path, no query.
\<close>

definition new_URL :: "string \<Rightarrow> url \<Rightarrow> url" where
  "new_URL path base = \<lparr>origin = origin base, pathname = path, searchParams = []\<rparr>"

text \<open>
  \<^verbatim>\<open>searchParams.set(k, v)\<close>: the first pair named \<^verbatim>\<open>k\<close> takes the value, the
  other pairs named \<^verbatim>\<open>k\<close> go; without such a pair, \<^verbatim>\<open>(k, v)\<close> is appended.
\<close>

fun set_first :: "string \<Rightarrow> string \<Rightarrow> (string \<times> string) list \<Rightarrow> (string \<times> string) list" where
  "set_first k v [] = [(k, v)]"
| "set_first k v ((k', v') # ps) =
     (if k' = k then (k, v) # filter (\<lambda>q. fst q \<noteq> k) ps else (k', v') # set_first k v ps)"

definition searchParams_set :: "string \<Rightarrow> string \<Rightarrow> url \<Rightarrow> url" where
  "searchParams_set k v u = u\<lparr>searchParams := set_first k v (searchParams u)\<rparr>"

definition middleware :: "request \<Rightarrow> response" where
  "middleware request =
     (let pathname = url.pathname (nextUrl request);
          accessToken = cookies request ''CognitoIdentityServiceProvider.accessToken'';
          idToken = cookies request ''CognitoIdentityServiceProvider.idToken'';
          userGroup = cookies request ''CognitoIdentityServiceProvider.userGroup'';
          isAuthenticated = (accessToken \<noteq> None \<and> idToken \<noteq> None);
          isAuthenticatedRoute =
            (startsWith pathname ''/dashboard'' \<or>
             startsWith pathname ''/discovery'' \<or>
             startsWith pathname ''/implementation'' \<or>
             startsWith pathname ''/account'' \<or>
             startsWith pathname ''/admin'');
          isAdminRoute = startsWith pathname ''/admin'';
          isPublicRoute =
            (startsWith pathname ''/login'' \<or>
             startsWith pathname ''/signup'' \<or>
             startsWith pathname ''/forgot-password'' \<or>
             startsWith pathname ''/reset-password'' \<or>
             pathname = ''/'')
      in if isAuthenticatedRoute \<and> \<not> isAuthenticated then
           NextResponse_redirect
             (searchParams_set ''redirect'' pathname (new_URL ''/login'' (nextUrl request)))
         else if isAdminRoute \<and> isAuthenticated \<and> userGroup \<noteq> Some ''DataWovenAdmin'' then
           NextResponse_redirect
             (searchParams_set ''error'' ''unauthorized'' (new_URL ''/dashboard'' (nextUrl request)))
         else if isPublicRoute \<and> isAuthenticated \<and> startsWith pathname ''/login'' then
           NextResponse_redirect (new_URL ''/dashboard'' (nextUrl request))
         else NextResponse_next)"

text \<open>
  The decision a response stands for: continue, or a redirect with its target path
  and its query parameters.
\<close>

datatype decision = Continue | Redirect_to string "(string \<times> string) list"

fun decision_of :: "response \<Rightarrow> decision" where
  "decision_of NextResponse_next = Continue"
| "decision_of (NextResponse_redirect u) = Redirect_to (url.pathname u) (searchParams u)"

section \<open>The browser's cookie store\<close>

text \<open>
  The Cookie Bridge writes cookies by assigning a text to \<^verbatim>\<open>document.cookie\<close>. What
  such an assignment does to the browser's cookies is fixed by the cookie standard
  (RFC 6265 in its revision RFC 6265bis, which browsers follow), modelled here as far
  as the texts of this program need it:
  \<^item> a text with a control character (any but the tabulator) is ignored;
  \<^item> the name-value pair is the text before the first \<^verbatim>\<open>;\<close>, the attributes follow;
  \<^item> the name is the text before the first \<^verbatim>\<open>=\<close> of the pair, the value the text
    after it, both without surrounding blanks; a pair without \<^verbatim>\<open>=\<close> is a value
    without name; a cookie with neither name nor value is ignored, and so is one whose
    name and value together have more than 4096 characters;
  \<^item> an attribute whose value has more than 1024 characters is ignored; a cookie with
    the attribute \<^verbatim>\<open>HttpOnly\<close> cannot be written by a script and is ignored;
  \<^item> the last well-formed \<^verbatim>\<open>Max-Age\<close> attribute decides the expiry; without one,
    the last well-formed \<^verbatim>\<open>Expires\<close> attribute does; without either the cookie
    lasts for the browsing session;
  \<^item> a cookie that is expired when it is stored removes the cookie of its name, any
    other replaces it.
  All cookies of this program are written for path \<^verbatim>\<open>/\<close> of the page's own host, so
  the store is a map from names to values. Not modelled: the attributes \<^verbatim>\<open>Domain\<close>,
  \<^verbatim>\<open>Path\<close> and \<^verbatim>\<open>Secure\<close>, whose effect depends on the address of the page (the
  program writes \<^verbatim>\<open>path=/\<close> and neither of the others), and the passing of time: a
  cookie stored with \<^verbatim>\<open>max-age=3600\<close> stays. The one date this program writes is the
  epoch, \<^verbatim>\<open>Thu, 01 Jan 1970 00:00:00 GMT\<close>, which is in the past at every moment;
  \<open>parse_cookie_date\<close> reads that date and no other.
\<close>

type_synonym cookie_jar = "string \<rightharpoonup> string"

text \<open>The control characters but the tabulator: codes 0 to 8, 10 to 31 and 127.\<close>

definition CTL :: "char \<Rightarrow> bool" where
  "CTL c =
     (c \<in> set [CHR 0x00, CHR 0x01, CHR 0x02, CHR 0x03, CHR 0x04, CHR 0x05, CHR 0x06, CHR 0x07,
                 CHR 0x08, CHR 0x0A, CHR 0x0B, CHR 0x0C, CHR 0x0D, CHR 0x0E, CHR 0x0F, CHR 0x10,
                 CHR 0x11, CHR 0x12, CHR 0x13, CHR 0x14, CHR 0x15, CHR 0x16, CHR 0x17, CHR 0x18,
                 CHR 0x19, CHR 0x1A, CHR 0x1B, CHR 0x1C, CHR 0x1D, CHR 0x1E, CHR 0x1F, CHR 0x7F])"

definition WSP :: "char \<Rightarrow> bool" where
  "WSP c = (c = CHR '' '' \<or> c = CHR 0x09)"

definition trim :: "string \<Rightarrow> string" where
  "trim s = rev (dropWhile WSP (rev (dropWhile WSP s)))"

definition before_char :: "char \<Rightarrow> string \<Rightarrow> string" where
  "before_char c s = takeWhile (\<lambda>x. x \<noteq> c) s"

definition from_char :: "char \<Rightarrow> string \<Rightarrow> string" where
  "from_char c s = dropWhile (\<lambda>x. x \<noteq> c) s"

fun split_on :: "char \<Rightarrow> string \<Rightarrow> string list" where
  "split_on c [] = [[]]"
| "split_on c (x # xs) =
     (if x = c then [] # split_on c xs
      else (case split_on c xs of [] \<Rightarrow> [[x]] | y # ys \<Rightarrow> (x # y) # ys))"

definition to_lower :: "char \<Rightarrow> char" where
  "to_lower c =
     (case map_of (zip ''ABCDEFGHIJKLMNOPQRSTUVWXYZ'' ''abcdefghijklmnopqrstuvwxyz'') c of
        Some l \<Rightarrow> l | None \<Rightarrow> c)"

text \<open>An attribute: its name in lower case (names match without regard to case) and its value.\<close>

definition cookie_av :: "string \<Rightarrow> string \<times> string" where
  "cookie_av s =
     (if CHR ''='' \<in> set s
      then (map to_lower (trim (before_char CHR ''='' s)), trim (drop 1 (from_char CHR ''='' s)))
      else (map to_lower (trim s), []))"

definition cookie_attributes :: "string \<Rightarrow> (string \<times> string) list" where
  "cookie_attributes unparsed =
     (if unparsed = [] then []
      else filter (\<lambda>av. length (snd av) \<le> 1024)
             (map cookie_av (split_on CHR '';'' (drop 1 unparsed))))"

definition is_digit :: "char \<Rightarrow> bool" where
  "is_digit c = (c \<in> set ''0123456789'')"

definition digit_value :: "char \<Rightarrow> int" where
  "digit_value c =
     (case map_of (zip ''0123456789'' [0, 1, 2, 3, 4, 5, 6, 7, 8, 9]) c of
        Some d \<Rightarrow> d | None \<Rightarrow> 0)"

definition digits_value :: "string \<Rightarrow> int" where
  "digits_value ds = foldl (\<lambda>n d. 10 * n + digit_value d) 0 ds"

text \<open>
  \<^verbatim>\<open>Max-Age\<close>: a value that does not start with a digit, or with \<^verbatim>\<open>-\<close> and a digit,
  or that goes on with something else than digits, is ignored.
\<close>

definition parse_max_age :: "string \<Rightarrow> int option" where
  "parse_max_age v =
     (case v of
        [] \<Rightarrow> None
      | c # cs \<Rightarrow>
          if \<not> (is_digit c \<or> (c = CHR ''-'' \<and> cs \<noteq> [])) \<or> \<not> list_all is_digit cs then None
          else if c = CHR ''-'' then Some (- digits_value cs)
          else Some (digits_value (c # cs)))"

text \<open>The date as seconds since the epoch.\<close>

definition parse_cookie_date :: "string \<Rightarrow> int option" where
  "parse_cookie_date v = (if v = ''Thu, 01 Jan 1970 00:00:00 GMT'' then Some 0 else None)"

text \<open>
  Whether a cookie with these attributes is expired when it is stored. A date is in
  the past when it is the epoch.
\<close>

definition expired :: "(string \<times> string) list \<Rightarrow> bool" where
  "expired avs =
     (case rev (List.map_filter (\<lambda>(n, v). if n = ''max-age'' then parse_max_age v else None) avs) of
        delta # _ \<Rightarrow> delta \<le> 0
      | [] \<Rightarrow>
          (case rev (List.map_filter (\<lambda>(n, v). if n = ''expires'' then parse_cookie_date v else None) avs) of
             date # _ \<Rightarrow> date \<le> 0
           | [] \<Rightarrow> False))"

definition http_only :: "(string \<times> string) list \<Rightarrow> bool" where
  "http_only avs = (''httponly'' \<in> set (map fst avs))"

text \<open>\<^verbatim>\<open>document.cookie = s\<close>.\<close>

definition document_cookie_set :: "string \<Rightarrow> cookie_jar \<Rightarrow> cookie_jar" where
  "document_cookie_set s jar =
     (let name_value_pair = before_char CHR '';'' s;
          unparsed_attributes = from_char CHR '';'' s;
          name = (if CHR ''='' \<in> set name_value_pair
                  then trim (before_char CHR ''='' name_value_pair) else []);
          val = (if CHR ''='' \<in> set name_value_pair
                 then trim (drop 1 (from_char CHR ''='' name_value_pair))
                 else trim name_value_pair);
          avs = cookie_attributes unparsed_attributes
      in if list_ex CTL s then jar
         else if name = [] \<and> val = [] then jar
         else if length name + length val > 4096 then jar
         else if http_only avs then jar
         else if expired avs then jar(name := None)
         else jar(name \<mapsto> val))"

section \<open>The Cookie Bridge: \<^verbatim>\<open>setAuthCookies\<close> and \<^verbatim>\<open>clearAuthCookies\<close>\<close>

text \<open>
  A function of the program ends by returning or by throwing to its caller: its
  result is a value of \<open>error + 'a\<close>, next to the state it leaves. What is thrown is
  an error of the provider's client, or the \<^verbatim>\<open>TypeError\<close> of reading a property of
  \<^verbatim>\<open>undefined\<close>.
\<close>

datatype error = Error string | TypeError string

text \<open>
  The parameter \<^verbatim>\<open>tokens\<close> is of type \<^verbatim>\<open>any\<close>; the program reads it as the
  tokens of a session (\<^verbatim>\<open>session.tokens\<close>, possibly \<^verbatim>\<open>undefined\<close>): an access token
  and an id token, each possibly missing. Of a token the program reads the text
  (\<^verbatim>\<open>toString()\<close>, which every string and every ordinary object has) and the
  payload, and of the payload the claim \<^verbatim>\<open>"cognito:groups"\<close> (a list of group
  names, or absent). A token of the provider's client always has a payload; a token
  of another shape (a bare string, say) has none: its \<^verbatim>\<open>payload\<close> is
  \<^verbatim>\<open>undefined\<close>.
\<close>

record jwt_payload =
  cognito_groups :: "string list option"

record jwt =
  toString :: string
  payload :: "jwt_payload option"

record auth_tokens =
  accessToken :: "jwt option"
  idToken :: "jwt option"

text \<open>A string or \<^verbatim>\<open>undefined\<close> as a condition: \<^verbatim>\<open>undefined\<close> and \<^verbatim>\<open>""\<close> are falsy.\<close>

definition truthy :: "string option \<Rightarrow> bool" where
  "truthy s = (case s of None \<Rightarrow> False | Some v \<Rightarrow> v \<noteq> [])"

text \<open>
  \<^verbatim>\<open>x || d\<close> for a string or \<^verbatim>\<open>undefined\<close> \<^verbatim>\<open>x\<close> and a string \<^verbatim>\<open>d\<close>: \<^verbatim>\<open>x\<close>
  when it is truthy, else \<^verbatim>\<open>d\<close>.
\<close>

definition or_string :: "string option \<Rightarrow> string \<Rightarrow> string" where
  "or_string x d = (case x of None \<Rightarrow> d | Some v \<Rightarrow> if v = [] then d else v)"

text \<open>\<^verbatim>\<open>xs[0]\<close>, which is \<^verbatim>\<open>undefined\<close> on an empty array.\<close>

definition first :: "string list \<Rightarrow> string option" where
  "first xs = (case xs of [] \<Rightarrow> None | x # _ \<Rightarrow> Some x)"

text \<open>
  \<^verbatim>\<open>tokens?.accessToken?.payload["cognito:groups"] || []\<close>: without tokens or without
  access token the optional chain yields \<^verbatim>\<open>undefined\<close>, which counts as no group;
  with an access token its payload is indexed unguarded, which throws when the
  payload is \<^verbatim>\<open>undefined\<close>; an absent claim counts as no group (an array, empty or
  not, is truthy).
\<close>

definition groups_of :: "auth_tokens option \<Rightarrow> error + string list" where
  "groups_of tokens =
     (case Option.bind tokens auth_tokens.accessToken of
        None \<Rightarrow> Inr []
      | Some token \<Rightarrow>
          (case payload token of
             None \<Rightarrow> Inl (TypeError ''Cannot read properties of undefined'')
           | Some claims \<Rightarrow>
               Inr (case cognito_groups claims of None \<Rightarrow> [] | Some gs \<Rightarrow> gs)))"

text \<open>A string or \<^verbatim>\<open>undefined\<close> inside a template literal: \<^verbatim>\<open>`${x}`\<close>.\<close>

definition interpolate :: "string option \<Rightarrow> string" where
  "interpolate s = (case s of None \<Rightarrow> ''undefined'' | Some v \<Rightarrow> v)"

text \<open>
  Both helpers work on \<^verbatim>\<open>document.cookie\<close>, which exists in a browser only: the
  cookie store is \<open>None\<close> where \<^verbatim>\<open>typeof window\<close> is \<^verbatim>\<open>"undefined"\<close>, and the
  helpers do nothing there. In \<^verbatim>\<open>setAuthCookies\<close> the groups are read before the
  test of the two texts, so a throw comes before any assignment. The three
  assignments follow each other in the order of the source: access token, id token,
  group.
\<close>

definition setAuthCookies ::
  "auth_tokens option \<Rightarrow> cookie_jar option \<Rightarrow> (error + unit) \<times> cookie_jar option" where
  "setAuthCookies tokens window =
     (case window of
        None \<Rightarrow> (Inr (), None)
      | Some jar \<Rightarrow>
          (let accessToken = map_option toString (Option.bind tokens auth_tokens.accessToken);
               idToken = map_option toString (Option.bind tokens auth_tokens.idToken)
           in case groups_of tokens of
                Inl error \<Rightarrow> (Inl error, Some jar)
              | Inr groups \<Rightarrow>
                  (let primaryGroup = or_string (first groups) ''none''
                   in if truthy accessToken \<and> truthy idToken then
                        (Inr (),
                         Some
                           (document_cookie_set
                              (''CognitoIdentityServiceProvider.userGroup='' @ primaryGroup @
                               ''; path=/; max-age=3600; SameSite=Lax'')
                           (document_cookie_set
                              (''CognitoIdentityServiceProvider.idToken='' @ interpolate idToken @
                               ''; path=/; max-age=3600; SameSite=Lax'')
                           (document_cookie_set
                              (''CognitoIdentityServiceProvider.accessToken='' @
                               interpolate accessToken @
                               ''; path=/; max-age=3600; SameSite=Lax'')
                              jar))))
                      else (Inr (), Some jar))))"

definition clearAuthCookies :: "cookie_jar option \<Rightarrow> cookie_jar option" where
  "clearAuthCookies window =
     (case window of
        None \<Rightarrow> None
      | Some jar \<Rightarrow>
          Some
            (document_cookie_set
               ''CognitoIdentityServiceProvider.userGroup=; path=/; expires=Thu, 01 Jan 1970 00:00:00 GMT''
            (document_cookie_set
               ''CognitoIdentityServiceProvider.idToken=; path=/; expires=Thu, 01 Jan 1970 00:00:00 GMT''
            (document_cookie_set
               ''CognitoIdentityServiceProvider.accessToken=; path=/; expires=Thu, 01 Jan 1970 00:00:00 GMT''
               jar))))"

section \<open>The Auth State Store: \<^verbatim>\<open>AuthProvider\<close>\<close>

text \<open>
  What the provider's client returns: the current user (with the login id of
  \<^verbatim>\<open>signInDetails\<close>, when there is one), the session with its tokens, the user's
  attributes, and the outcome of a sign-in. A call of the provider's client either
  returns or throws: its outcome is a value of \<open>error + 'a\<close>. The client itself is
  not part of the program: every operation below takes the outcomes of the calls it
  makes (for \<^verbatim>\<open>signIn\<close>, as a function of the credentials).
\<close>

record current_user =
  userId :: string
  loginId :: "string option"

record auth_session =
  tokens :: "auth_tokens option"

record sign_in_output =
  isSignedIn :: bool
  signInStep :: string

record user =
  email :: string
  userId :: string
  groups :: "string list"
  attributes :: "(string \<times> string) list"

text \<open>
  A line of the console: \<^verbatim>\<open>console.log\<close> with its label (the objects printed
  after it are left out), \<^verbatim>\<open>console.error\<close> with its label and the error.
\<close>

datatype console_line = console_log string | console_error string error

text \<open>
  The state the component works on: its two React state variables, the browser's
  cookie store (\<open>None\<close> outside a browser) and the console.
\<close>

record state =
  user :: "user option"
  loading :: bool
  document_cookie :: "cookie_jar option"
  console :: "console_line list"

text \<open>The outcomes of the three calls \<^verbatim>\<open>refreshUser\<close> awaits, in the order it awaits them.\<close>

record refresh_calls =
  getCurrentUser :: "error + current_user"
  fetchAuthSession :: "error + auth_session"
  fetchUserAttributes :: "error + (string \<times> string) list"

text \<open>
  \<^verbatim>\<open>attributes.email || currentUser.signInDetails?.loginId || ""\<close>.
\<close>

definition email_of :: "(string \<times> string) list \<Rightarrow> current_user \<Rightarrow> string" where
  "email_of userAttributes currentUser =
     or_string (map_of userAttributes ''email'') (or_string (loginId currentUser) [])"

text \<open>
  The \<^verbatim>\<open>try\<close> block of \<^verbatim>\<open>refreshUser\<close>. It ends with the state it reaches, or
  with the error thrown and the state reached by then: the first call that throws
  ends it before anything is written, and so does the reading of the groups (the
  same expression as in \<^verbatim>\<open>setAuthCookies\<close>); the three lines of the console are
  written before \<^verbatim>\<open>setAuthCookies\<close> is called.
\<close>

definition refreshUser_try :: "refresh_calls \<Rightarrow> state \<Rightarrow> error \<times> state + state" where
  "refreshUser_try calls s =
     (case getCurrentUser calls of
        Inl error \<Rightarrow> Inl (error, s)
      | Inr currentUser \<Rightarrow>
     (case fetchAuthSession calls of
        Inl error \<Rightarrow> Inl (error, s)
      | Inr session \<Rightarrow>
     (case fetchUserAttributes calls of
        Inl error \<Rightarrow> Inl (error, s)
      | Inr userAttributes \<Rightarrow>
     (case groups_of (tokens session) of
        Inl error \<Rightarrow> Inl (error, s)
      | Inr sessionGroups \<Rightarrow>
          (let s1 = s\<lparr>console := console s @
                      [console_log ''RefreshUser - Current user:'',
                       console_log ''RefreshUser - Session:'',
                       console_log ''RefreshUser - Groups:'']\<rparr>;
               written = setAuthCookies (tokens session) (document_cookie s1);
               s2 = s1\<lparr>document_cookie := snd written\<rparr>
           in case fst written of
                Inl error \<Rightarrow> Inl (error, s2)
              | Inr _ \<Rightarrow>
                  Inr (s2\<lparr>user := Some
                         \<lparr>email = email_of userAttributes currentUser,
                          userId = current_user.userId currentUser,
                          groups = sessionGroups,
                          attributes = userAttributes\<rparr>\<rparr>))))))"

text \<open>
  \<^verbatim>\<open>refreshUser\<close> with its \<^verbatim>\<open>catch\<close> and \<^verbatim>\<open>finally\<close>. (The parameter
  \<^verbatim>\<open>email\<close> of \<^verbatim>\<open>login\<close> is \<open>email'\<close> below, \<open>email\<close> being a field of the user,
  and the local \<^verbatim>\<open>groups\<close> of \<^verbatim>\<open>refreshUser\<close> is \<open>sessionGroups\<close>.)
\<close>

definition refreshUser :: "refresh_calls \<Rightarrow> state \<Rightarrow> (error + unit) \<times> state" where
  "refreshUser calls s =
     (let s' = (case refreshUser_try calls s of
                  Inr s' \<Rightarrow> s'
                | Inl (error, s') \<Rightarrow>
                    s'\<lparr>console := console s' @ [console_error ''RefreshUser error:'' error],
                       user := None\<rparr>)
      in (Inr (), s'\<lparr>loading := False\<rparr>))"

definition login ::
  "(string \<Rightarrow> string \<Rightarrow> error + sign_in_output) \<Rightarrow> string \<Rightarrow> string \<Rightarrow> state \<Rightarrow>
   (error + sign_in_output) \<times> state" where
  "login signIn email' password s =
     (case signIn email' password of
        Inr result \<Rightarrow> (Inr result, s\<lparr>console := console s @ [console_log ''Login result:'']\<rparr>)
      | Inl error \<Rightarrow> (Inl error, s\<lparr>console := console s @ [console_error ''Login error:'' error]\<rparr>))"

definition logout :: "(error + unit) \<Rightarrow> state \<Rightarrow> (error + unit) \<times> state" where
  "logout signOut s =
     (case signOut of
        Inr _ \<Rightarrow>
          (Inr (), s\<lparr>document_cookie := clearAuthCookies (document_cookie s), user := None\<rparr>)
      | Inl error \<Rightarrow> (Inl error, s\<lparr>console := console s @ [console_error ''Logout error:'' error]\<rparr>))"

text \<open>
  The component starts with no user and \<^verbatim>\<open>loading\<close> set, on the cookies the browser
  holds.
\<close>

definition AuthProvider_init :: "cookie_jar option \<Rightarrow> state" where
  "AuthProvider_init window = \<lparr>user = None, loading = True, document_cookie = window, console = []\<rparr>"

text \<open>
  Each of the three operations writes the state in one go, after its last
  \<^verbatim>\<open>await\<close>: however calls overlap, the state goes through the operations' effects
  one after the other, in the order they complete. A history of the system is a list
  of completed operations, each with the outcomes of its provider calls.
\<close>

datatype operation =
  RefreshUser refresh_calls
| Login "string \<Rightarrow> string \<Rightarrow> error + sign_in_output" string string
| Logout "error + unit"

fun perform :: "operation \<Rightarrow> state \<Rightarrow> state" where
  "perform (RefreshUser calls) s = snd (refreshUser calls s)"
| "perform (Login signIn email' password) s = snd (login signIn email' password s)"
| "perform (Logout signOut) s = snd (logout signOut s)"

fun run :: "operation list \<Rightarrow> state \<Rightarrow> state" where
  "run [] s = s"
| "run (operation # operations) s = run operations (perform operation s)"

text \<open>
  What the Route Guard takes for an authenticated browser: both token cookies are there.
\<close>

definition asserts_authenticated :: "cookie_jar \<Rightarrow> bool" where
  "asserts_authenticated jar =
     (jar ''CognitoIdentityServiceProvider.accessToken'' \<noteq> None \<and>
      jar ''CognitoIdentityServiceProvider.idToken'' \<noteq> None)"

text \<open>
  The value of a cookie in the browser (none outside a browser).
\<close>

definition cookie_of :: "cookie_jar option \<Rightarrow> string \<Rightarrow> string option" where
  "cookie_of window name = (case window of None \<Rightarrow> None | Some jar \<Rightarrow> jar name)"

text \<open>
  The request a browser sends for a URL of the site: it carries the cookies of the
  store (all of them are cookies for path \<^verbatim>\<open>/\<close>). The values are handed over as
  they are stored, which is what the server reads for a value without \<^verbatim>\<open>%\<close>: the
  server decodes percent escapes, which are not modelled.
\<close>

definition browser_request :: "url \<Rightarrow> cookie_jar option \<Rightarrow> request" where
  "browser_request u window =
     \<lparr>nextUrl = u, cookies = (case window of None \<Rightarrow> Map.empty | Some jar \<Rightarrow> jar)\<rparr>"

section \<open>Facts about the cookie store\<close>

lemma before_char_stop: "c \<notin> set xs \<Longrightarrow> before_char c (xs @ c # ys) = xs"
  by (induction xs) (auto simp: before_char_def)

lemma from_char_stop: "c \<notin> set xs \<Longrightarrow> from_char c (xs @ c # ys) = c # ys"
  by (induction xs) (auto simp: from_char_def)




lemma epoch_attributes:
  "expired (cookie_attributes ''; path=/; expires=Thu, 01 Jan 1970 00:00:00 GMT'')"
  "\<not> http_only (cookie_attributes ''; path=/; expires=Thu, 01 Jan 1970 00:00:00 GMT'')"
  "\<not> list_ex CTL ''; path=/; expires=Thu, 01 Jan 1970 00:00:00 GMT''"
  by code_simp+

text \<open>
  An assignment \<^verbatim>\<open>name=value;attributes\<close> without control characters, whose name
  and value are free of \<^verbatim>\<open>;\<close> and not too long, and whose attributes do not say
  \<^verbatim>\<open>HttpOnly\<close>, stores or removes the cookie of that name, as the attributes say.
\<close>

lemma document_cookie_set_pair:
  assumes n: "CHR '';'' \<notin> set n" "CHR ''='' \<notin> set n" "trim n = n" "n \<noteq> []"
    and v: "CHR '';'' \<notin> set v"
    and ctl: "\<not> list_ex CTL n" "\<not> list_ex CTL v" "\<not> list_ex CTL (CHR '';'' # avs)"
    and size: "length n + length (trim v) \<le> 4096"
    and script: "\<not> http_only (cookie_attributes (CHR '';'' # avs))"
  shows "document_cookie_set (n @ CHR ''='' # v @ CHR '';'' # avs) jar =
           (if expired (cookie_attributes (CHR '';'' # avs)) then jar(n := None)
            else jar(n \<mapsto> trim v))"
proof -
  have pair: "before_char CHR '';'' (n @ CHR ''='' # v @ CHR '';'' # avs) = n @ CHR ''='' # v"
    using n(1) v before_char_stop [of "CHR '';''" "n @ CHR ''='' # v" avs] by simp
  have rest: "from_char CHR '';'' (n @ CHR ''='' # v @ CHR '';'' # avs) = CHR '';'' # avs"
    using n(1) v from_char_stop [of "CHR '';''" "n @ CHR ''='' # v" avs] by simp
  have name: "before_char CHR ''='' (n @ CHR ''='' # v) = n"
    using n(2) by (rule before_char_stop)
  have val: "from_char CHR ''='' (n @ CHR ''='' # v) = CHR ''='' # v"
    using n(2) by (rule from_char_stop)
  have eq: "\<not> CTL CHR ''=''"
    by (simp add: CTL_def)
  have clean: "\<not> list_ex CTL (n @ CHR ''='' # v @ CHR '';'' # avs)"
    using ctl eq by (auto simp: list_ex_iff)
  show ?thesis
    unfolding document_cookie_set_def pair rest name val Let_def
    using n(2,3,4) size script clean by (simp only: if_False if_True) auto
qed

lemma cookie_names:
  "trim ''CognitoIdentityServiceProvider.accessToken'' = ''CognitoIdentityServiceProvider.accessToken''"
  "trim ''CognitoIdentityServiceProvider.idToken'' = ''CognitoIdentityServiceProvider.idToken''"
  "trim ''CognitoIdentityServiceProvider.userGroup'' = ''CognitoIdentityServiceProvider.userGroup''"
  "\<not> list_ex CTL ''CognitoIdentityServiceProvider.accessToken''"
  "\<not> list_ex CTL ''CognitoIdentityServiceProvider.idToken''"
  "\<not> list_ex CTL ''CognitoIdentityServiceProvider.userGroup''"
  by code_simp+






lemma expire_cookie:
  assumes "CHR '';'' \<notin> set n" "CHR ''='' \<notin> set n" "trim n = n" "n \<noteq> []"
    and "\<not> list_ex CTL n" "length n \<le> 4096"
  shows "document_cookie_set (n @ ''=; path=/; expires=Thu, 01 Jan 1970 00:00:00 GMT'') jar =
           jar(n := None)"
proof -
  have size: "length n + length (trim []) \<le> 4096"
    using assms(6) by (simp add: trim_def)
  have empty: "CHR '';'' \<notin> set []" "\<not> list_ex CTL []"
    by simp_all
  show ?thesis
    using document_cookie_set_pair
      [OF assms(1-4) empty(1) assms(5) empty(2) epoch_attributes(3) size
          epoch_attributes(2), of jar]
      epoch_attributes(1)
    by simp
qed

section \<open>Facts about the Cookie Bridge and the Auth State Store\<close>



lemma clearAuthCookies_in_browser:
  "clearAuthCookies (Some jar) =
     Some (jar(''CognitoIdentityServiceProvider.accessToken'' := None,
               ''CognitoIdentityServiceProvider.idToken'' := None,
               ''CognitoIdentityServiceProvider.userGroup'' := None))"
  using
    expire_cookie [OF _ _ cookie_names(1) _ cookie_names(4), of jar]
    expire_cookie [OF _ _ cookie_names(2) _ cookie_names(5),
      of "jar(''CognitoIdentityServiceProvider.accessToken'' := None)"]
    expire_cookie [OF _ _ cookie_names(3) _ cookie_names(6),
      of "jar(''CognitoIdentityServiceProvider.accessToken'' := None,
              ''CognitoIdentityServiceProvider.idToken'' := None)"]
  by (simp add: clearAuthCookies_def)

lemma cookie_of_clearAuthCookies:
  "cookie_of (clearAuthCookies window) ''CognitoIdentityServiceProvider.accessToken'' = None"
  "cookie_of (clearAuthCookies window) ''CognitoIdentityServiceProvider.idToken'' = None"
  "cookie_of (clearAuthCookies window) ''CognitoIdentityServiceProvider.userGroup'' = None"
  by (cases window; simp add: cookie_of_def clearAuthCookies_in_browser;
      simp add: clearAuthCookies_def)+

lemma refreshUser_try_failure:
  "isl (getCurrentUser calls) \<or> isl (fetchAuthSession calls) \<or> isl (fetchUserAttributes calls)
   \<Longrightarrow> \<exists>error. refreshUser_try calls s = Inl (error, s)"
  by (auto simp: refreshUser_try_def isl_def split: sum.splits)

section \<open>Properties of the Route Guard\<close>

text \<open>
  Claim C1. For every path that starts with one of the protected prefixes
  (\<^verbatim>\<open>/dashboard\<close>, \<^verbatim>\<open>/discovery\<close>, \<^verbatim>\<open>/implementation\<close>, \<^verbatim>\<open>/account\<close>,
  \<^verbatim>\<open>/admin\<close>), a request without the access-token cookie and without the id-token
  cookie is answered by a redirect to \<^verbatim>\<open>/login\<close> on the request's origin whose
  only query parameter is \<^verbatim>\<open>redirect\<close>, set to the path; the answer is never
  \<^verbatim>\<open>NextResponse.next()\<close>.
\<close>

theorem middleware_protected_without_tokens:
  assumes "startsWith (url.pathname (nextUrl request)) ''/dashboard'' \<or>
           startsWith (url.pathname (nextUrl request)) ''/discovery'' \<or>
           startsWith (url.pathname (nextUrl request)) ''/implementation'' \<or>
           startsWith (url.pathname (nextUrl request)) ''/account'' \<or>
           startsWith (url.pathname (nextUrl request)) ''/admin''"
    and "cookies request ''CognitoIdentityServiceProvider.accessToken'' = None"
    and "cookies request ''CognitoIdentityServiceProvider.idToken'' = None"
  shows "middleware request =
           NextResponse_redirect
             \<lparr>origin = origin (nextUrl request), pathname = ''/login'',
              searchParams = [(''redirect'', url.pathname (nextUrl request))]\<rparr>
         \<and> middleware request \<noteq> NextResponse_next"
  using assms by (simp add: middleware_def Let_def new_URL_def searchParams_set_def)

text \<open>
  The theorem at a request for \<^verbatim>\<open>/discovery/sessions\<close> that carries an unrelated
  cookie only.
\<close>

theorem middleware_protected_without_tokens_witness:
  "middleware
     \<lparr>nextUrl = \<lparr>origin = ''https://datawoven.example'', pathname = ''/discovery/sessions'',
                 searchParams = [(''tab'', ''open'')]\<rparr>,
      cookies = [''theme'' \<mapsto> ''dark'']\<rparr> =
   NextResponse_redirect
     \<lparr>origin = ''https://datawoven.example'', pathname = ''/login'',
      searchParams = [(''redirect'', ''/discovery/sessions'')]\<rparr>"
  using middleware_protected_without_tokens
    [of "\<lparr>nextUrl = \<lparr>origin = ''https://datawoven.example'', pathname = ''/discovery/sessions'',
                 searchParams = [(''tab'', ''open'')]\<rparr>,
      cookies = [''theme'' \<mapsto> ''dark'']\<rparr>"]
  by (simp add: startsWith_def)

text \<open>
  Claim C2. For every path that starts with \<^verbatim>\<open>/admin\<close>, a request with both token
  cookies whose group cookie is absent or differs from \<^verbatim>\<open>DataWovenAdmin\<close>
  (compared as strings, character by character) is answered by a redirect to
  \<^verbatim>\<open>/dashboard\<close> with the one query parameter \<^verbatim>\<open>error=unauthorized\<close>, whatever
  the rest of the path is.
\<close>

theorem middleware_admin_without_admin_group:
  assumes "startsWith (url.pathname (nextUrl request)) ''/admin''"
    and "cookies request ''CognitoIdentityServiceProvider.accessToken'' \<noteq> None"
    and "cookies request ''CognitoIdentityServiceProvider.idToken'' \<noteq> None"
    and "cookies request ''CognitoIdentityServiceProvider.userGroup'' \<noteq> Some ''DataWovenAdmin''"
  shows "middleware request =
           NextResponse_redirect
             \<lparr>origin = origin (nextUrl request), pathname = ''/dashboard'',
              searchParams = [(''error'', ''unauthorized'')]\<rparr>"
  using assms by (simp add: middleware_def Let_def new_URL_def searchParams_set_def)

text \<open>
  The theorem at a request for \<^verbatim>\<open>/admin/provisioning\<close> whose group cookie is the
  administrative name in lower case.
\<close>

theorem middleware_admin_without_admin_group_witness:
  "middleware
     \<lparr>nextUrl = \<lparr>origin = ''https://datawoven.example'', pathname = ''/admin/provisioning'',
                 searchParams = []\<rparr>,
      cookies = [''CognitoIdentityServiceProvider.accessToken'' \<mapsto> ''eyJraWQ.access.sig'',
                 ''CognitoIdentityServiceProvider.idToken'' \<mapsto> ''eyJraWQ.id.sig'',
                 ''CognitoIdentityServiceProvider.userGroup'' \<mapsto> ''datawovenadmin'']\<rparr> =
   NextResponse_redirect
     \<lparr>origin = ''https://datawoven.example'', pathname = ''/dashboard'',
      searchParams = [(''error'', ''unauthorized'')]\<rparr>"
  using middleware_admin_without_admin_group
    [of "\<lparr>nextUrl = \<lparr>origin = ''https://datawoven.example'', pathname = ''/admin/provisioning'',
                 searchParams = []\<rparr>,
      cookies = [''CognitoIdentityServiceProvider.accessToken'' \<mapsto> ''eyJraWQ.access.sig'',
                 ''CognitoIdentityServiceProvider.idToken'' \<mapsto> ''eyJraWQ.id.sig'',
                 ''CognitoIdentityServiceProvider.userGroup'' \<mapsto> ''datawovenadmin'']\<rparr>"]
  by (simp add: startsWith_def)

text \<open>
  Claim C7. A request for \<^verbatim>\<open>/login\<close> with both token cookies is answered by a
  redirect to \<^verbatim>\<open>/dashboard\<close> (without query parameters); a request for
  \<^verbatim>\<open>/login\<close> that lacks at least one of the two cookies continues.
\<close>

theorem middleware_login:
  assumes "url.pathname (nextUrl request) = ''/login''"
  shows "(cookies request ''CognitoIdentityServiceProvider.accessToken'' \<noteq> None \<and>
          cookies request ''CognitoIdentityServiceProvider.idToken'' \<noteq> None \<longrightarrow>
            middleware request =
              NextResponse_redirect
                \<lparr>origin = origin (nextUrl request), pathname = ''/dashboard'', searchParams = []\<rparr>)
       \<and> (cookies request ''CognitoIdentityServiceProvider.accessToken'' = None \<or>
          cookies request ''CognitoIdentityServiceProvider.idToken'' = None \<longrightarrow>
            middleware request = NextResponse_next)"
  using assms by (simp add: middleware_def Let_def new_URL_def startsWith_def)

text \<open>
  The theorem at a request with both token cookies and at a request with the
  access-token cookie alone.
\<close>

theorem middleware_login_witness:
  "middleware
     \<lparr>nextUrl = \<lparr>origin = ''https://datawoven.example'', pathname = ''/login'', searchParams = []\<rparr>,
      cookies = [''CognitoIdentityServiceProvider.accessToken'' \<mapsto> ''eyJraWQ.access.sig'',
                 ''CognitoIdentityServiceProvider.idToken'' \<mapsto> ''eyJraWQ.id.sig'']\<rparr> =
   NextResponse_redirect
     \<lparr>origin = ''https://datawoven.example'', pathname = ''/dashboard'', searchParams = []\<rparr>
   \<and>
   middleware
     \<lparr>nextUrl = \<lparr>origin = ''https://datawoven.example'', pathname = ''/login'', searchParams = []\<rparr>,
      cookies = [''CognitoIdentityServiceProvider.accessToken'' \<mapsto> ''eyJraWQ.access.sig'']\<rparr> =
   NextResponse_next"
  using
    middleware_login
      [of "\<lparr>nextUrl = \<lparr>origin = ''https://datawoven.example'', pathname = ''/login'', searchParams = []\<rparr>,
      cookies = [''CognitoIdentityServiceProvider.accessToken'' \<mapsto> ''eyJraWQ.access.sig'',
                 ''CognitoIdentityServiceProvider.idToken'' \<mapsto> ''eyJraWQ.id.sig'']\<rparr>"]
    middleware_login
      [of "\<lparr>nextUrl = \<lparr>origin = ''https://datawoven.example'', pathname = ''/login'', searchParams = []\<rparr>,
      cookies = [''CognitoIdentityServiceProvider.accessToken'' \<mapsto> ''eyJraWQ.access.sig'']\<rparr>"]
  by simp

text \<open>
  Claim C9. The decision of the Route Guard (continue, or redirect with its target
  and query) is a function of the path, of the presence of the two token cookies and
  of the value of the group cookie: two requests that agree on these get the same
  decision, whatever their origins, their query strings, their other cookies and the
  values of their token cookies. Every request gets a decision, which is one of four:
  continue, redirect to \<^verbatim>\<open>/login\<close> with the path as \<^verbatim>\<open>redirect\<close>, redirect to
  \<^verbatim>\<open>/dashboard\<close> with \<^verbatim>\<open>error=unauthorized\<close>, redirect to \<^verbatim>\<open>/dashboard\<close>.
  The function takes the request alone and returns the response alone: there is no
  state it could read or leave behind, and no outcome that is an error.
\<close>

theorem middleware_decision_determined:
  "(\<forall>r r'.
      url.pathname (nextUrl r) = url.pathname (nextUrl r') \<and>
      (cookies r ''CognitoIdentityServiceProvider.accessToken'' = None \<longleftrightarrow>
       cookies r' ''CognitoIdentityServiceProvider.accessToken'' = None) \<and>
      (cookies r ''CognitoIdentityServiceProvider.idToken'' = None \<longleftrightarrow>
       cookies r' ''CognitoIdentityServiceProvider.idToken'' = None) \<and>
      cookies r ''CognitoIdentityServiceProvider.userGroup'' =
      cookies r' ''CognitoIdentityServiceProvider.userGroup'' \<longrightarrow>
      decision_of (middleware r) = decision_of (middleware r'))
   \<and> (\<forall>r. decision_of (middleware r) = Continue \<or>
          decision_of (middleware r) =
            Redirect_to ''/login'' [(''redirect'', url.pathname (nextUrl r))] \<or>
          decision_of (middleware r) = Redirect_to ''/dashboard'' [(''error'', ''unauthorized'')] \<or>
          decision_of (middleware r) = Redirect_to ''/dashboard'' [])"
proof (intro conjI allI impI)
  fix r r' :: request
  assume "url.pathname (nextUrl r) = url.pathname (nextUrl r') \<and>
      (cookies r ''CognitoIdentityServiceProvider.accessToken'' = None \<longleftrightarrow>
       cookies r' ''CognitoIdentityServiceProvider.accessToken'' = None) \<and>
      (cookies r ''CognitoIdentityServiceProvider.idToken'' = None \<longleftrightarrow>
       cookies r' ''CognitoIdentityServiceProvider.idToken'' = None) \<and>
      cookies r ''CognitoIdentityServiceProvider.userGroup'' =
      cookies r' ''CognitoIdentityServiceProvider.userGroup''"
  then show "decision_of (middleware r) = decision_of (middleware r')"
    by (cases "cookies r ''CognitoIdentityServiceProvider.accessToken''";
        cases "cookies r ''CognitoIdentityServiceProvider.idToken''";
        cases "cookies r' ''CognitoIdentityServiceProvider.accessToken''";
        cases "cookies r' ''CognitoIdentityServiceProvider.idToken''")
       (simp_all add: middleware_def Let_def new_URL_def searchParams_set_def)
next
  fix r :: request
  show "decision_of (middleware r) = Continue \<or>
          decision_of (middleware r) =
            Redirect_to ''/login'' [(''redirect'', url.pathname (nextUrl r))] \<or>
          decision_of (middleware r) = Redirect_to ''/dashboard'' [(''error'', ''unauthorized'')] \<or>
          decision_of (middleware r) = Redirect_to ''/dashboard'' []"
    by (simp add: middleware_def Let_def new_URL_def searchParams_set_def)
qed

text \<open>
  The theorem at two requests for \<^verbatim>\<open>/admin/provisioning\<close> that differ in origin,
  query, token values and further cookies.
\<close>

theorem middleware_decision_determined_witness:
  "decision_of (middleware
     \<lparr>nextUrl = \<lparr>origin = ''https://datawoven.example'', pathname = ''/admin/provisioning'',
                 searchParams = []\<rparr>,
      cookies = [''CognitoIdentityServiceProvider.accessToken'' \<mapsto> ''eyJraWQ.access.sig'',
                 ''CognitoIdentityServiceProvider.idToken'' \<mapsto> ''eyJraWQ.id.sig'',
                 ''CognitoIdentityServiceProvider.userGroup'' \<mapsto> ''ImplementationUser'']\<rparr>) =
   decision_of (middleware
     \<lparr>nextUrl = \<lparr>origin = ''http://localhost:3000'', pathname = ''/admin/provisioning'',
                 searchParams = [(''page'', ''2'')]\<rparr>,
      cookies = [''CognitoIdentityServiceProvider.accessToken'' \<mapsto> ''another.access.token'',
                 ''CognitoIdentityServiceProvider.idToken'' \<mapsto> [],
                 ''CognitoIdentityServiceProvider.userGroup'' \<mapsto> ''ImplementationUser'',
                 ''theme'' \<mapsto> ''dark'']\<rparr>)"
  using middleware_decision_determined
  by (elim conjE allE [of _ "\<lparr>nextUrl = \<lparr>origin = ''https://datawoven.example'', pathname = ''/admin/provisioning'',
                 searchParams = []\<rparr>,
      cookies = [''CognitoIdentityServiceProvider.accessToken'' \<mapsto> ''eyJraWQ.access.sig'',
                 ''CognitoIdentityServiceProvider.idToken'' \<mapsto> ''eyJraWQ.id.sig'',
                 ''CognitoIdentityServiceProvider.userGroup'' \<mapsto> ''ImplementationUser'']\<rparr>"]
       allE [of _ "\<lparr>nextUrl = \<lparr>origin = ''http://localhost:3000'', pathname = ''/admin/provisioning'',
                 searchParams = [(''page'', ''2'')]\<rparr>,
      cookies = [''CognitoIdentityServiceProvider.accessToken'' \<mapsto> ''another.access.token'',
                 ''CognitoIdentityServiceProvider.idToken'' \<mapsto> [],
                 ''CognitoIdentityServiceProvider.userGroup'' \<mapsto> ''ImplementationUser'',
                 ''theme'' \<mapsto> ''dark'']\<rparr>"]) simp


section \<open>Properties of the Cookie Bridge\<close>




text \<open>
  Claim C10, as stated, at tokens without id token whose access token has no payload
  (a token that is not of the provider's shape; the parameter is of type
  \<^verbatim>\<open>any\<close>), in a browser: reading the groups throws a \<^verbatim>\<open>TypeError\<close>, so the call
  does not return without error.
\<close>

theorem setAuthCookies_payloadless_access_token:
  "fst (setAuthCookies
     (Some \<lparr>accessToken = Some \<lparr>toString = ''eyJraWQ.access.sig'', payload = None\<rparr>,
            idToken = None\<rparr>)
     (Some [''CognitoIdentityServiceProvider.userGroup'' \<mapsto> ''ImplementationUser''])) =
   Inl (TypeError ''Cannot read properties of undefined'')"
  by (simp add: setAuthCookies_def groups_of_def)

text \<open>
  Claim C10, amended. When the access token or the id token is missing (the tokens,
  the token or its text \<^verbatim>\<open>undefined\<close>, or the text empty), \<^verbatim>\<open>setAuthCookies\<close>
  assigns nothing to \<^verbatim>\<open>document.cookie\<close>: the cookie store after the call is the
  store before it, for the three cookies and every other. The call returns without
  error outside a browser, and in a browser when the access token, if there is one,
  has a payload (as every token of the provider's client has); in a browser with an
  access token without payload it throws a \<^verbatim>\<open>TypeError\<close>, the cookies untouched.
\<close>

theorem setAuthCookies_without_token:
  assumes "\<not> truthy (map_option toString (Option.bind toks auth_tokens.accessToken)) \<or>
           \<not> truthy (map_option toString (Option.bind toks auth_tokens.idToken))"
  shows "snd (setAuthCookies toks window) = window
       \<and> (window = None \<or>
          (\<forall>token. Option.bind toks auth_tokens.accessToken = Some token \<longrightarrow> payload token \<noteq> None) \<longrightarrow>
            fst (setAuthCookies toks window) = Inr ())
       \<and> (\<forall>token. window \<noteq> None \<and> Option.bind toks auth_tokens.accessToken = Some token \<and>
                  payload token = None \<longrightarrow>
            fst (setAuthCookies toks window) = Inl (TypeError ''Cannot read properties of undefined''))"
  using assms
  by (cases window)
     (auto simp: setAuthCookies_def Let_def groups_of_def split: sum.splits option.splits)

text \<open>
  The theorem at tokens without id token (the access token has a payload), in a
  browser that holds the three cookies of an earlier session.
\<close>

theorem setAuthCookies_without_token_witness:
  "setAuthCookies
     (Some \<lparr>accessToken = Some \<lparr>toString = ''eyJraWQ.access.sig'',
                               payload = Some \<lparr>cognito_groups = Some [''DataWovenAdmin'']\<rparr>\<rparr>,
            idToken = None\<rparr>)
     (Some [''CognitoIdentityServiceProvider.accessToken'' \<mapsto> ''old.access.token'',
            ''CognitoIdentityServiceProvider.idToken'' \<mapsto> ''old.id.token'',
            ''CognitoIdentityServiceProvider.userGroup'' \<mapsto> ''ImplementationUser'']) =
   (Inr (),
    Some [''CognitoIdentityServiceProvider.accessToken'' \<mapsto> ''old.access.token'',
          ''CognitoIdentityServiceProvider.idToken'' \<mapsto> ''old.id.token'',
          ''CognitoIdentityServiceProvider.userGroup'' \<mapsto> ''ImplementationUser''])"
  using setAuthCookies_without_token
    [of "Some \<lparr>accessToken = Some \<lparr>toString = ''eyJraWQ.access.sig'',
                               payload = Some \<lparr>cognito_groups = Some [''DataWovenAdmin'']\<rparr>\<rparr>,
            idToken = None\<rparr>"
        "Some [''CognitoIdentityServiceProvider.accessToken'' \<mapsto> ''old.access.token'',
            ''CognitoIdentityServiceProvider.idToken'' \<mapsto> ''old.id.token'',
            ''CognitoIdentityServiceProvider.userGroup'' \<mapsto> ''ImplementationUser'']"]
  by (simp add: truthy_def prod_eq_iff)

section \<open>Properties of the Auth State Store\<close>

text \<open>
  Claim C6. When one of the three provider calls of \<^verbatim>\<open>refreshUser\<close> throws, the
  state it leaves is the state it found with the user set to \<^verbatim>\<open>null\<close> and
  \<^verbatim>\<open>loading\<close> set to false: the store keeps nothing of the error (which goes to
  the console alone), and the cookies are untouched. On every exit, after success or
  failure, \<^verbatim>\<open>loading\<close> is false, and \<^verbatim>\<open>refreshUser\<close> returns without throwing.
\<close>

theorem refreshUser_failure:
  "(isl (getCurrentUser calls) \<or> isl (fetchAuthSession calls) \<or> isl (fetchUserAttributes calls) \<longrightarrow>
      (\<exists>error. snd (refreshUser calls s) =
         s\<lparr>console := console s @ [console_error ''RefreshUser error:'' error],
           user := None, loading := False\<rparr>))
   \<and> loading (snd (refreshUser calls s)) = False
   \<and> fst (refreshUser calls s) = Inr ()"
proof (intro conjI impI)
  assume "isl (getCurrentUser calls) \<or> isl (fetchAuthSession calls) \<or> isl (fetchUserAttributes calls)"
  then obtain error where "refreshUser_try calls s = Inl (error, s)"
    using refreshUser_try_failure by blast
  then show "\<exists>error. snd (refreshUser calls s) =
         s\<lparr>console := console s @ [console_error ''RefreshUser error:'' error],
           user := None, loading := False\<rparr>"
    by (auto simp: refreshUser_def)
next
  show "loading (snd (refreshUser calls s)) = False"
    by (simp add: refreshUser_def Let_def)
next
  show "fst (refreshUser calls s) = Inr ()"
    by (simp add: refreshUser_def Let_def)
qed

text \<open>
  The theorem at a refresh whose second call, \<^verbatim>\<open>fetchAuthSession\<close>, throws, from a
  state with a user and \<^verbatim>\<open>loading\<close> set.
\<close>

theorem refreshUser_failure_witness:
  "user (snd (refreshUser
       \<lparr>getCurrentUser = Inr \<lparr>current_user.userId = ''u-1'', loginId = Some ''ada@example.com''\<rparr>,
        fetchAuthSession = Inl (Error ''NetworkError''),
        fetchUserAttributes = Inr [(''email'', ''ada@example.com'')]\<rparr>
       \<lparr>user = Some \<lparr>email = ''ada@example.com'', userId = ''u-1'',
                     groups = [''ImplementationUser''], attributes = []\<rparr>,
        loading = True, document_cookie = Some Map.empty, console = []\<rparr>)) = None
   \<and> loading (snd (refreshUser
       \<lparr>getCurrentUser = Inr \<lparr>current_user.userId = ''u-1'', loginId = Some ''ada@example.com''\<rparr>,
        fetchAuthSession = Inl (Error ''NetworkError''),
        fetchUserAttributes = Inr [(''email'', ''ada@example.com'')]\<rparr>
       \<lparr>user = Some \<lparr>email = ''ada@example.com'', userId = ''u-1'',
                     groups = [''ImplementationUser''], attributes = []\<rparr>,
        loading = True, document_cookie = Some Map.empty, console = []\<rparr>)) = False"
  using refreshUser_failure
    [of "\<lparr>getCurrentUser = Inr \<lparr>current_user.userId = ''u-1'', loginId = Some ''ada@example.com''\<rparr>,
        fetchAuthSession = Inl (Error ''NetworkError''),
        fetchUserAttributes = Inr [(''email'', ''ada@example.com'')]\<rparr>"
       "\<lparr>user = Some \<lparr>email = ''ada@example.com'', userId = ''u-1'',
                     groups = [''ImplementationUser''], attributes = []\<rparr>,
        loading = True, document_cookie = Some Map.empty, console = []\<rparr>"]
  by auto

text \<open>
  Claim C4, as stated, at a sign-out that throws: \<^verbatim>\<open>logout\<close> throws the error on,
  the user is still there and so is the access-token cookie.
\<close>

theorem logout_signOut_throws:
  "fst (logout (Inl (Error ''NetworkError''))
       \<lparr>user = Some \<lparr>email = ''ada@example.com'', userId = ''u-1'',
                     groups = [''ImplementationUser''], attributes = []\<rparr>,
        loading = False,
        document_cookie =
          Some [''CognitoIdentityServiceProvider.accessToken'' \<mapsto> ''eyJraWQ.access.sig'',
                ''CognitoIdentityServiceProvider.idToken'' \<mapsto> ''eyJraWQ.id.sig'',
                ''CognitoIdentityServiceProvider.userGroup'' \<mapsto> ''ImplementationUser''],
        console = []\<rparr>) = Inl (Error ''NetworkError'')
   \<and> user (snd (logout (Inl (Error ''NetworkError''))
       \<lparr>user = Some \<lparr>email = ''ada@example.com'', userId = ''u-1'',
                     groups = [''ImplementationUser''], attributes = []\<rparr>,
        loading = False,
        document_cookie =
          Some [''CognitoIdentityServiceProvider.accessToken'' \<mapsto> ''eyJraWQ.access.sig'',
                ''CognitoIdentityServiceProvider.idToken'' \<mapsto> ''eyJraWQ.id.sig'',
                ''CognitoIdentityServiceProvider.userGroup'' \<mapsto> ''ImplementationUser''],
        console = []\<rparr>)) \<noteq> None
   \<and> cookie_of (document_cookie (snd (logout (Inl (Error ''NetworkError''))
       \<lparr>user = Some \<lparr>email = ''ada@example.com'', userId = ''u-1'',
                     groups = [''ImplementationUser''], attributes = []\<rparr>,
        loading = False,
        document_cookie =
          Some [''CognitoIdentityServiceProvider.accessToken'' \<mapsto> ''eyJraWQ.access.sig'',
                ''CognitoIdentityServiceProvider.idToken'' \<mapsto> ''eyJraWQ.id.sig'',
                ''CognitoIdentityServiceProvider.userGroup'' \<mapsto> ''ImplementationUser''],
        console = []\<rparr>))) ''CognitoIdentityServiceProvider.accessToken'' =
       Some ''eyJraWQ.access.sig''"
  by (simp add: logout_def cookie_of_def)

text \<open>
  Claim C4, amended. When the provider's sign-out returns, \<^verbatim>\<open>logout\<close> returns, with
  the three cookies removed and the user set to \<^verbatim>\<open>null\<close> (the \<^verbatim>\<open>loading\<close> flag
  and the console as they were). When the sign-out throws, \<^verbatim>\<open>logout\<close> writes the
  error on the console (\<^verbatim>\<open>console.error("Logout error:", error)\<close>), throws the same
  error to its caller and leaves the user, the \<^verbatim>\<open>loading\<close> flag and the cookies as
  they were.
\<close>

theorem logout_outcomes:
  "(signOut = Inr () \<longrightarrow>
      fst (logout signOut s) = Inr () \<and>
      user (snd (logout signOut s)) = None \<and>
      cookie_of (document_cookie (snd (logout signOut s)))
        ''CognitoIdentityServiceProvider.accessToken'' = None \<and>
      cookie_of (document_cookie (snd (logout signOut s)))
        ''CognitoIdentityServiceProvider.idToken'' = None \<and>
      cookie_of (document_cookie (snd (logout signOut s)))
        ''CognitoIdentityServiceProvider.userGroup'' = None \<and>
      loading (snd (logout signOut s)) = loading s \<and>
      console (snd (logout signOut s)) = console s)
   \<and> (\<forall>error. signOut = Inl error \<longrightarrow>
      fst (logout signOut s) = Inl error \<and>
      user (snd (logout signOut s)) = user s \<and>
      loading (snd (logout signOut s)) = loading s \<and>
      document_cookie (snd (logout signOut s)) = document_cookie s \<and>
      console (snd (logout signOut s)) = console s @ [console_error ''Logout error:'' error])"
  by (simp add: logout_def cookie_of_clearAuthCookies)

text \<open>
  The theorem at a signed-in state, once with a sign-out that returns and once with a
  sign-out that throws.
\<close>

theorem logout_outcomes_witness:
  "user (snd (logout (Inr ())
       \<lparr>user = Some \<lparr>email = ''ada@example.com'', userId = ''u-1'',
                     groups = [''ImplementationUser''], attributes = []\<rparr>,
        loading = False,
        document_cookie =
          Some [''CognitoIdentityServiceProvider.accessToken'' \<mapsto> ''eyJraWQ.access.sig'',
                ''CognitoIdentityServiceProvider.idToken'' \<mapsto> ''eyJraWQ.id.sig'',
                ''CognitoIdentityServiceProvider.userGroup'' \<mapsto> ''ImplementationUser''],
        console = []\<rparr>)) = None
   \<and> cookie_of (document_cookie (snd (logout (Inr ())
       \<lparr>user = Some \<lparr>email = ''ada@example.com'', userId = ''u-1'',
                     groups = [''ImplementationUser''], attributes = []\<rparr>,
        loading = False,
        document_cookie =
          Some [''CognitoIdentityServiceProvider.accessToken'' \<mapsto> ''eyJraWQ.access.sig'',
                ''CognitoIdentityServiceProvider.idToken'' \<mapsto> ''eyJraWQ.id.sig'',
                ''CognitoIdentityServiceProvider.userGroup'' \<mapsto> ''ImplementationUser''],
        console = []\<rparr>))) ''CognitoIdentityServiceProvider.accessToken'' = None
   \<and> user (snd (logout (Inl (Error ''NetworkError''))
       \<lparr>user = Some \<lparr>email = ''ada@example.com'', userId = ''u-1'',
                     groups = [''ImplementationUser''], attributes = []\<rparr>,
        loading = False,
        document_cookie =
          Some [''CognitoIdentityServiceProvider.accessToken'' \<mapsto> ''eyJraWQ.access.sig'',
                ''CognitoIdentityServiceProvider.idToken'' \<mapsto> ''eyJraWQ.id.sig'',
                ''CognitoIdentityServiceProvider.userGroup'' \<mapsto> ''ImplementationUser''],
        console = []\<rparr>)) =
     Some \<lparr>email = ''ada@example.com'', userId = ''u-1'',
           groups = [''ImplementationUser''], attributes = []\<rparr>
   \<and> console (snd (logout (Inl (Error ''NetworkError''))
       \<lparr>user = Some \<lparr>email = ''ada@example.com'', userId = ''u-1'',
                     groups = [''ImplementationUser''], attributes = []\<rparr>,
        loading = False,
        document_cookie =
          Some [''CognitoIdentityServiceProvider.accessToken'' \<mapsto> ''eyJraWQ.access.sig'',
                ''CognitoIdentityServiceProvider.idToken'' \<mapsto> ''eyJraWQ.id.sig'',
                ''CognitoIdentityServiceProvider.userGroup'' \<mapsto> ''ImplementationUser''],
        console = []\<rparr>)) =
     [console_error ''Logout error:'' (Error ''NetworkError'')]"
  using
    logout_outcomes
      [of "Inr ()"
          "\<lparr>user = Some \<lparr>email = ''ada@example.com'', userId = ''u-1'',
                     groups = [''ImplementationUser''], attributes = []\<rparr>,
        loading = False,
        document_cookie =
          Some [''CognitoIdentityServiceProvider.accessToken'' \<mapsto> ''eyJraWQ.access.sig'',
                ''CognitoIdentityServiceProvider.idToken'' \<mapsto> ''eyJraWQ.id.sig'',
                ''CognitoIdentityServiceProvider.userGroup'' \<mapsto> ''ImplementationUser''],
        console = []\<rparr>"]
    logout_outcomes
      [of "Inl (Error ''NetworkError'')"
          "\<lparr>user = Some \<lparr>email = ''ada@example.com'', userId = ''u-1'',
                     groups = [''ImplementationUser''], attributes = []\<rparr>,
        loading = False,
        document_cookie =
          Some [''CognitoIdentityServiceProvider.accessToken'' \<mapsto> ''eyJraWQ.access.sig'',
                ''CognitoIdentityServiceProvider.idToken'' \<mapsto> ''eyJraWQ.id.sig'',
                ''CognitoIdentityServiceProvider.userGroup'' \<mapsto> ''ImplementationUser''],
        console = []\<rparr>"]
  by simp

text \<open>
  Claim C5, as stated, at a sign-in that the provider refuses: \<^verbatim>\<open>login\<close> throws the
  provider's error to its caller.
\<close>

theorem login_signIn_throws:
  "fst (login (\<lambda>username password. Inl (Error ''NotAuthorizedException''))
         ''ada@example.com'' ''wrong password''
         \<lparr>user = None, loading = False, document_cookie = Some Map.empty, console = []\<rparr>) =
     Inl (Error ''NotAuthorizedException'')"
  by (simp add: login_def)

text \<open>
  Claim C5, amended. \<^verbatim>\<open>refreshUser\<close> catches every failure of its provider calls:
  it never throws, and after a failure the user is \<^verbatim>\<open>null\<close>. \<^verbatim>\<open>login\<close> and
  \<^verbatim>\<open>logout\<close> do not keep a failure of the provider to themselves. \<^verbatim>\<open>login\<close>
  ends as the provider's sign-in ended (with its result, or throwing its error) and
  changes nothing but the console, where it writes the error of a sign-in that threw
  (\<^verbatim>\<open>console.error("Login error:", error)\<close>) and the line \<^verbatim>\<open>Login result:\<close>
  after a sign-in that returned. \<^verbatim>\<open>logout\<close> throws the error of a
  sign-out that threw and changes nothing but the console, where it writes that
  error (\<^verbatim>\<open>console.error("Logout error:", error)\<close>).
\<close>

theorem provider_failure_outcomes:
  "fst (refreshUser calls s) = Inr ()
   \<and> (isl (getCurrentUser calls) \<or> isl (fetchAuthSession calls) \<or> isl (fetchUserAttributes calls) \<longrightarrow>
        user (snd (refreshUser calls s)) = None)
   \<and> fst (login signIn email' password s) = signIn email' password
   \<and> user (snd (login signIn email' password s)) = user s
   \<and> (\<forall>error. signIn email' password = Inl error \<longrightarrow>
        snd (login signIn email' password s) =
          s\<lparr>console := console s @ [console_error ''Login error:'' error]\<rparr>)
   \<and> (\<forall>result. signIn email' password = Inr result \<longrightarrow>
        snd (login signIn email' password s) =
          s\<lparr>console := console s @ [console_log ''Login result:'']\<rparr>)
   \<and> fst (logout (Inl error) s) = Inl error
   \<and> user (snd (logout (Inl error) s)) = user s
   \<and> snd (logout (Inl error) s) =
        s\<lparr>console := console s @ [console_error ''Logout error:'' error]\<rparr>"
proof -
  have "user (snd (refreshUser calls s)) = None"
    if "isl (getCurrentUser calls) \<or> isl (fetchAuthSession calls) \<or> isl (fetchUserAttributes calls)"
  proof -
    from that obtain e where "refreshUser_try calls s = Inl (e, s)"
      using refreshUser_try_failure by blast
    then show ?thesis by (simp add: refreshUser_def)
  qed
  then show ?thesis
    by (simp add: refreshUser_def Let_def login_def logout_def split: sum.splits)
qed

text \<open>
  The theorem at a refresh whose first call, \<^verbatim>\<open>getCurrentUser\<close>, throws, and at a
  login that the provider refuses, both from a state with a user.
\<close>

theorem provider_failure_outcomes_witness:
  "fst (refreshUser
       \<lparr>getCurrentUser = Inl (Error ''UserUnAuthenticatedException''),
        fetchAuthSession = Inr \<lparr>tokens = None\<rparr>,
        fetchUserAttributes = Inr []\<rparr>
       \<lparr>user = Some \<lparr>email = ''ada@example.com'', userId = ''u-1'',
                     groups = [''ImplementationUser''], attributes = []\<rparr>,
        loading = False, document_cookie = Some Map.empty, console = []\<rparr>) = Inr ()
   \<and> user (snd (refreshUser
       \<lparr>getCurrentUser = Inl (Error ''UserUnAuthenticatedException''),
        fetchAuthSession = Inr \<lparr>tokens = None\<rparr>,
        fetchUserAttributes = Inr []\<rparr>
       \<lparr>user = Some \<lparr>email = ''ada@example.com'', userId = ''u-1'',
                     groups = [''ImplementationUser''], attributes = []\<rparr>,
        loading = False, document_cookie = Some Map.empty, console = []\<rparr>)) = None
   \<and> snd (login (\<lambda>username password. Inl (Error ''NotAuthorizedException''))
         ''ada@example.com'' ''wrong password''
         \<lparr>user = Some \<lparr>email = ''ada@example.com'', userId = ''u-1'',
                     groups = [''ImplementationUser''], attributes = []\<rparr>,
          loading = False, document_cookie = Some Map.empty, console = []\<rparr>) =
       \<lparr>user = Some \<lparr>email = ''ada@example.com'', userId = ''u-1'',
                     groups = [''ImplementationUser''], attributes = []\<rparr>,
        loading = False, document_cookie = Some Map.empty,
        console = [console_error ''Login error:'' (Error ''NotAuthorizedException'')]\<rparr>"
  using provider_failure_outcomes
    [of "\<lparr>getCurrentUser = Inl (Error ''UserUnAuthenticatedException''),
        fetchAuthSession = Inr \<lparr>tokens = None\<rparr>,
        fetchUserAttributes = Inr []\<rparr>"
        "\<lparr>user = Some \<lparr>email = ''ada@example.com'', userId = ''u-1'',
                     groups = [''ImplementationUser''], attributes = []\<rparr>,
        loading = False, document_cookie = Some Map.empty, console = []\<rparr>"
        "\<lambda>username password. Inl (Error ''NotAuthorizedException'')"
        "''ada@example.com''" "''wrong password''"]
  by simp

text \<open>
  Claim C3, at the history of a refresh that succeeds followed by a refresh that
  fails, in a browser that starts without cookies: the user is \<^verbatim>\<open>null\<close>, and the
  two token cookies written by the first refresh are still there, so the Route Guard
  takes the browser for authenticated and serves \<^verbatim>\<open>/dashboard\<close>. (\<^verbatim>\<open>logout\<close> removes the cookies where it sets
  the user to \<^verbatim>\<open>null\<close>; the \<^verbatim>\<open>catch\<close> of \<^verbatim>\<open>refreshUser\<close> sets the user to
  \<^verbatim>\<open>null\<close> and leaves the cookies.)
\<close>

theorem failed_refresh_keeps_token_cookies:
  "user (run
     [RefreshUser
        \<lparr>getCurrentUser = Inr \<lparr>current_user.userId = ''u-1'', loginId = Some ''ada@example.com''\<rparr>,
         fetchAuthSession = Inr \<lparr>tokens = Some
           \<lparr>accessToken = Some \<lparr>toString = ''eyJraWQ.access.sig'',
              payload = Some \<lparr>cognito_groups = Some [''ImplementationUser'']\<rparr>\<rparr>,
            idToken = Some \<lparr>toString = ''eyJraWQ.id.sig'',
              payload = Some \<lparr>cognito_groups = None\<rparr>\<rparr>\<rparr>\<rparr>,
         fetchUserAttributes = Inr [(''email'', ''ada@example.com'')]\<rparr>,
      RefreshUser
        \<lparr>getCurrentUser = Inl (Error ''UserUnAuthenticatedException''),
         fetchAuthSession = Inr \<lparr>tokens = None\<rparr>,
         fetchUserAttributes = Inr []\<rparr>]
     (AuthProvider_init (Some Map.empty))) = None
   \<and> map_option asserts_authenticated (document_cookie (run
     [RefreshUser
        \<lparr>getCurrentUser = Inr \<lparr>current_user.userId = ''u-1'', loginId = Some ''ada@example.com''\<rparr>,
         fetchAuthSession = Inr \<lparr>tokens = Some
           \<lparr>accessToken = Some \<lparr>toString = ''eyJraWQ.access.sig'',
              payload = Some \<lparr>cognito_groups = Some [''ImplementationUser'']\<rparr>\<rparr>,
            idToken = Some \<lparr>toString = ''eyJraWQ.id.sig'',
              payload = Some \<lparr>cognito_groups = None\<rparr>\<rparr>\<rparr>\<rparr>,
         fetchUserAttributes = Inr [(''email'', ''ada@example.com'')]\<rparr>,
      RefreshUser
        \<lparr>getCurrentUser = Inl (Error ''UserUnAuthenticatedException''),
         fetchAuthSession = Inr \<lparr>tokens = None\<rparr>,
         fetchUserAttributes = Inr []\<rparr>]
     (AuthProvider_init (Some Map.empty)))) = Some True
   \<and> middleware (browser_request
     \<lparr>origin = ''https://datawoven.example'', pathname = ''/dashboard'', searchParams = []\<rparr>
     (document_cookie (run
     [RefreshUser
        \<lparr>getCurrentUser = Inr \<lparr>current_user.userId = ''u-1'', loginId = Some ''ada@example.com''\<rparr>,
         fetchAuthSession = Inr \<lparr>tokens = Some
           \<lparr>accessToken = Some \<lparr>toString = ''eyJraWQ.access.sig'',
              payload = Some \<lparr>cognito_groups = Some [''ImplementationUser'']\<rparr>\<rparr>,
            idToken = Some \<lparr>toString = ''eyJraWQ.id.sig'',
              payload = Some \<lparr>cognito_groups = None\<rparr>\<rparr>\<rparr>\<rparr>,
         fetchUserAttributes = Inr [(''email'', ''ada@example.com'')]\<rparr>,
      RefreshUser
        \<lparr>getCurrentUser = Inl (Error ''UserUnAuthenticatedException''),
         fetchAuthSession = Inr \<lparr>tokens = None\<rparr>,
         fetchUserAttributes = Inr []\<rparr>]
     (AuthProvider_init (Some Map.empty))))) = NextResponse_next"
  by code_simp

end
